theory Spec2Isabelle
  imports Main "HOL-Library.Sublist" "HOL-Library.Word"
begin

section \<open>JavaScript values and objects\<close>

text \<open>
  Request metadata, template variables and preference rows are plain JavaScript objects.
  A value is one of the primitives below. A number is an integer of 54 bits in two's
  complement (from \<open>-2^53\<close> to \<open>2^53 - 1\<close>): each of these is a number of JavaScript
  exactly, and \<open>String\<close> prints it in plain decimal. An object is the list of its own
  properties in the order in which \<open>Object.entries\<close> and the spread syntax go through
  them: the properties whose names are array indices first, in ascending order, then
  the others in the order of their creation. Strings are ASCII texts.
\<close>

datatype jsval = JUndefined | JNull | JBool bool | JNum "54 word" | JStr string

type_synonym obj = "(string \<times> jsval) list"

fun truthy :: "jsval \<Rightarrow> bool" where
  "truthy JUndefined = False"
| "truthy JNull = False"
| "truthy (JBool b) = b"
| "truthy (JNum n) = (n \<noteq> 0)"
| "truthy (JStr s) = (s \<noteq> [])"

text \<open>\<open>o.k\<close> on a data row: the own property, \<open>undefined\<close> when the row has none.\<close>

definition getProp :: "obj \<Rightarrow> string \<Rightarrow> jsval" where
  "getProp ob k = (case map_of ob k of Some v \<Rightarrow> v | None \<Rightarrow> JUndefined)"

text \<open>
  \<open>table[key]\<close> on an object literal used as a lookup table: the own property when
  there is one; otherwise the member that every object literal inherits from
  \<open>Object.prototype\<close> (a function or an object: truthy, neither a number nor an
  array); otherwise \<open>undefined\<close>.
\<close>

definition objectPrototypeKeys :: "string list" where
  "objectPrototypeKeys =
     [''constructor'', ''__proto__'', ''hasOwnProperty'', ''isPrototypeOf'',
      ''propertyIsEnumerable'', ''toLocaleString'', ''toString'', ''valueOf'',
      ''__defineGetter__'', ''__defineSetter__'', ''__lookupGetter__'',
      ''__lookupSetter__'']"

datatype 'a member = Own 'a | Inherited | Missing

definition lookupRecord :: "(string \<times> 'a) list \<Rightarrow> string \<Rightarrow> 'a member" where
  "lookupRecord table k =
     (case map_of table k of
        Some v \<Rightarrow> Own v
      | None \<Rightarrow> if k \<in> set objectPrototypeKeys then Inherited else Missing)"

fun digitsOf :: "nat \<Rightarrow> string" where
  "digitsOf n =
     (if n < 10 then [char_of (48 + n)]
      else digitsOf (n div 10) @ [char_of (48 + n mod 10)])"

declare digitsOf.simps [simp del]

definition showInt :: "int \<Rightarrow> string" where
  "showInt i = (if i < 0 then CHR ''-'' # digitsOf (nat (- i)) else digitsOf (nat i))"

text \<open>
  \<open>showInt\<close> prints an integer in decimal. It is applied to the numbers above, to clock
  readings (\<open>Date.now()\<close>, at most 8.64e15) and to lengths of lists, all of which
  JavaScript prints in plain decimal too. \<open>jsString\<close> is \<open>String(value)\<close>.
\<close>

fun jsString :: "jsval \<Rightarrow> string" where
  "jsString JUndefined = ''undefined''"
| "jsString JNull = ''null''"
| "jsString (JBool b) = (if b then ''true'' else ''false'')"
| "jsString (JNum n) = showInt (sint n)"
| "jsString (JStr s) = s"

section \<open>Data model\<close>

text \<open>
  \<open>SendNotificationData\<close>: type, channel and priority are strings (the enum names or
  anything else a caller sends); the optional fields are absent as \<open>None\<close>;
  \<open>scheduledAt\<close> is a valid \<open>Date\<close>, held as its epoch milliseconds.
\<close>

record NotificationData =
  d_userId :: string
  d_type :: string
  d_title :: string
  d_message :: string
  d_channel :: "string option"
  d_priority :: "string option"
  d_metadata :: "obj option"
  d_scheduledAt :: "int option"

text \<open>A row of table \<open>notifications\<close> (\<open>NotificationEntity\<close>); ids are opaque.\<close>

record notification =
  n_id :: nat
  n_userId :: string
  n_title :: string
  n_message :: string
  n_type :: string
  n_channel :: string
  n_priority :: string
  n_metadata :: "obj option"
  n_scheduledAt :: "int option"
  n_status :: string
  n_retryCount :: int
  n_createdAt :: int
  n_updatedAt :: int
  n_sentAt :: "int option"
  n_failedAt :: "int option"
  n_errorMessage :: "string option"

record jobData =
  j_notificationId :: nat
  j_userId :: string
  j_title :: string
  j_message :: string
  j_metadata :: "obj option"

text \<open>A job as handed to \<open>queue.add(name, data, {priority, delay})\<close>.\<close>

record job =
  q_name :: string
  q_data :: jobData
  q_priority :: "int member"
  q_delay :: int

record user =
  u_id :: string
  u_email :: "string option"
  u_phone :: "string option"

record deviceToken =
  t_userId :: string
  t_token :: string
  t_platform :: string
  t_isActive :: bool

text \<open>The three fields of a template that rendering reads and returns.\<close>

record content =
  c_title :: string
  c_message :: string
  c_htmlContent :: "string option"

record template =
  tp_id :: nat
  tp_type :: string
  tp_channel :: string
  tp_content :: content
  tp_isActive :: bool

record mail =
  m_to :: string
  m_subject :: string
  m_html :: string

record pushMessage =
  p_title :: string
  p_body :: string
  p_data :: obj
  p_token :: string

text \<open>
  The store (tables in scan order: a query without \<open>orderBy\<close> returns rows in this
  order), the template cache (a \<open>Map\<close>, in insertion order, of key to value and
  timestamp), the three queues and what the two channel adapters have sent.
\<close>

record world =
  notifications :: "notification list"
  userPreferences :: "obj list"
  users :: "user list"
  deviceTokens :: "deviceToken list"
  templates :: "template list"
  cache :: "(string \<times> template \<times> int) list"
  emailQueue :: "job list"
  pushQueue :: "job list"
  smsQueue :: "job list"
  nextId :: nat
  mailsSent :: "mail list"
  pushesSent :: "pushMessage list"

datatype error =
    TypeError string
  | RecordNotFound
  | SyntaxError
  | Error string
  | HttpException string nat

section \<open>NotificationService\<close>

text \<open>
  An optional string used as a condition (\<open>x ? \<dots>\<close>, \<open>x || d\<close>): absent and the
  empty string are falsy.
\<close>

definition given :: "string option \<Rightarrow> string option" where
  "given x = (case x of Some s \<Rightarrow> if s \<noteq> [] then Some s else None | None \<Rightarrow> None)"

definition getUserPreferences :: "world \<Rightarrow> string \<Rightarrow> obj list" where
  "getUserPreferences w userId =
     filter (\<lambda>pref. getProp pref ''userId'' = JStr userId) (userPreferences w)"

definition defaultChannels :: "(string \<times> string list) list" where
  "defaultChannels =
     [(''WELCOME'', [''EMAIL'']),
      (''ORDER_CONFIRMATION'', [''EMAIL'', ''PUSH'']),
      (''ORDER_SHIPPED'', [''PUSH'', ''SMS'']),
      (''ORDER_DELIVERED'', [''PUSH'']),
      (''PAYMENT_SUCCESS'', [''EMAIL'']),
      (''PAYMENT_FAILED'', [''EMAIL'', ''PUSH'']),
      (''PASSWORD_RESET'', [''EMAIL'']),
      (''EMAIL_VERIFICATION'', [''EMAIL''])]"

text \<open>
  \<open>determineChannels\<close>. The filter over the preference rows reads property
  \<open>enabled\<close>. \<open>defaultChannels[type] || [EMAIL]\<close> keeps an inherited member,
  which has no \<open>filter\<close> method: the call throws.
\<close>

definition determineChannels :: "NotificationData \<Rightarrow> obj list \<Rightarrow> error + string list" where
  "determineChannels notificationData prefs =
     (let enabledChannels =
            map (\<lambda>pref. getProp pref ''channel'')
              (filter (\<lambda>pref. truthy (getProp pref ''enabled'')) prefs);
          allowed = (\<lambda>channel. enabledChannels = [] \<or> JStr channel \<in> set enabledChannels)
      in case given (d_channel notificationData) of
           Some c \<Rightarrow> Inr [c]
         | None \<Rightarrow>
             (case lookupRecord defaultChannels (d_type notificationData) of
                Own typeChannels \<Rightarrow> Inr (filter allowed typeChannels)
              | Inherited \<Rightarrow> Inl (TypeError ''typeChannels.filter is not a function'')
              | Missing \<Rightarrow> Inr (filter allowed [''EMAIL''])))"

definition priorityMap :: "(string \<times> int) list" where
  "priorityMap = [(''LOW'', 1), (''NORMAL'', 5), (''HIGH'', 10), (''URGENT'', 20)]"

text \<open>\<open>getPriority\<close>: \<open>priorityMap[priority || NORMAL] || 5\<close>.\<close>

definition getPriority :: "string option \<Rightarrow> int member" where
  "getPriority priority =
     (case lookupRecord priorityMap
             (case given priority of Some p \<Rightarrow> p | None \<Rightarrow> ''NORMAL'') of
        Own n \<Rightarrow> if n \<noteq> 0 then Own n else Own 5
      | Inherited \<Rightarrow> Inherited
      | Missing \<Rightarrow> Own 5)"

text \<open>
  The \<open>delay\<close> option, written out three times in the source, once per queue:
  \<open>scheduledAt ? new Date(scheduledAt).getTime() - Date.now() : 0\<close>. A \<open>Date\<close> is
  truthy whatever its value.
\<close>

definition enqueueDelay :: "int option \<Rightarrow> int \<Rightarrow> int" where
  "enqueueDelay scheduledAt now = (case scheduledAt of Some t \<Rightarrow> t - now | None \<Rightarrow> 0)"

definition mkJob :: "string \<Rightarrow> NotificationData \<Rightarrow> notification \<Rightarrow> int \<Rightarrow> job" where
  "mkJob name notificationData n now =
     \<lparr>q_name = name,
      q_data = \<lparr>j_notificationId = n_id n, j_userId = d_userId notificationData,
                j_title = d_title notificationData, j_message = d_message notificationData,
                j_metadata = d_metadata notificationData\<rparr>,
      q_priority = getPriority (d_priority notificationData),
      q_delay = enqueueDelay (d_scheduledAt notificationData) now\<rparr>"

text \<open>The \<open>switch (channel)\<close> of the enqueue loop; any other channel adds no job.\<close>

definition enqueue :: "NotificationData \<Rightarrow> notification \<Rightarrow> int \<Rightarrow> world \<Rightarrow> string \<Rightarrow> world" where
  "enqueue notificationData n now w channel =
     (if channel = ''EMAIL''
        then w\<lparr>emailQueue := emailQueue w @ [mkJob ''send-email'' notificationData n now]\<rparr>
      else if channel = ''PUSH''
        then w\<lparr>pushQueue := pushQueue w @ [mkJob ''send-push'' notificationData n now]\<rparr>
      else if channel = ''SMS''
        then w\<lparr>smsQueue := smsQueue w @ [mkJob ''send-sms'' notificationData n now]\<rparr>
      else w)"

text \<open>
  Modelled from the spec: the defaults of \<open>prisma.notification.create\<close> (the Prisma schema
  is not among the sources): the store assigns the id and the timestamps, status
  \<open>QUEUED\<close> and retryCount 0.
\<close>

definition createNotification :: "NotificationData \<Rightarrow> int \<Rightarrow> nat \<Rightarrow> notification" where
  "createNotification notificationData now newId =
     \<lparr>n_id = newId,
      n_userId = d_userId notificationData,
      n_title = d_title notificationData,
      n_message = d_message notificationData,
      n_type = d_type notificationData,
      n_channel = (case given (d_channel notificationData) of
                     Some c \<Rightarrow> c | None \<Rightarrow> ''EMAIL''),
      n_priority = (case given (d_priority notificationData) of
                      Some p \<Rightarrow> p | None \<Rightarrow> ''NORMAL''),
      n_metadata = d_metadata notificationData,
      n_scheduledAt = d_scheduledAt notificationData,
      n_status = ''QUEUED'',
      n_retryCount = 0,
      n_createdAt = now,
      n_updatedAt = now,
      n_sentAt = None,
      n_failedAt = None,
      n_errorMessage = None\<rparr>"

text \<open>
  \<open>sendNotification\<close>, with \<open>now\<close> the clock during the call. An exception leaves
  the row it has already created in the store, so the error carries the world.
\<close>

definition sendNotification ::
  "int \<Rightarrow> NotificationData \<Rightarrow> world \<Rightarrow> (error \<times> world) + (notification \<times> world)" where
  "sendNotification now notificationData w =
     (let n = createNotification notificationData now (nextId w);
          w1 = w\<lparr>notifications := notifications w @ [n], nextId := Suc (nextId w)\<rparr>;
          prefs = getUserPreferences w1 (d_userId notificationData)
      in case determineChannels notificationData prefs of
           Inl e \<Rightarrow> Inl (e, w1)
         | Inr channels \<Rightarrow> Inr (n, foldl (enqueue notificationData n now) w1 channels))"

text \<open>
  \<open>prisma.notification.update({where: {id}, data})\<close>: the row with that id gets the
  fields of \<open>data\<close>, every other field and row stays; no such row is an error. A field
  given as \<open>undefined\<close> is left as it is.
\<close>

definition updateRow ::
  "nat \<Rightarrow> (notification \<Rightarrow> notification) \<Rightarrow> world \<Rightarrow> error + (notification \<times> world)" where
  "updateRow i f w =
     (case find (\<lambda>r. n_id r = i) (notifications w) of
        None \<Rightarrow> Inl RecordNotFound
      | Some r \<Rightarrow>
          Inr (f r, w\<lparr>notifications :=
                        map (\<lambda>r. if n_id r = i then f r else r) (notifications w)\<rparr>))"

text \<open>The \<open>updateData\<close> object of \<open>updateNotificationStatus\<close>, applied to a row.\<close>

definition updateData :: "int \<Rightarrow> string \<Rightarrow> string option \<Rightarrow> notification \<Rightarrow> notification" where
  "updateData now status errorMessage r =
     (let r1 = r\<lparr>n_status := status, n_updatedAt := now\<rparr>
      in if status = ''SENT'' then r1\<lparr>n_sentAt := Some now\<rparr>
         else if status = ''FAILED''
           then r1\<lparr>n_failedAt := Some now,
                   n_errorMessage := (case errorMessage of
                                        Some m \<Rightarrow> Some m
                                      | None \<Rightarrow> n_errorMessage r)\<rparr>
         else r1)"

definition updateNotificationStatus ::
  "int \<Rightarrow> nat \<Rightarrow> string \<Rightarrow> string option \<Rightarrow> world \<Rightarrow> error + (notification \<times> world)" where
  "updateNotificationStatus now notificationId status errorMessage w =
     updateRow notificationId (updateData now status errorMessage) w"

text \<open>
  \<open>retryFailedNotifications\<close>: \<open>findMany\<close> with a \<open>where\<close> and \<open>take: 100\<close>, then the
  loop, which an exception leaves at once. The update writes the retry count that was
  read, plus one.
\<close>

definition retryData :: "notification \<Rightarrow> NotificationData" where
  "retryData n =
     \<lparr>d_userId = n_userId n, d_type = n_type n, d_title = n_title n,
      d_message = n_message n, d_channel = Some (n_channel n),
      d_priority = Some (n_priority n), d_metadata = n_metadata n,
      d_scheduledAt = None\<rparr>"




section \<open>TemplateRenderer\<close>

text \<open>
  \<open>new RegExp(`{{${key}}}`, 'g')\<close>. The characters below have a meaning in a pattern.
  A plain name has none of them and does not read as the body of a quantifier (digits
  and commas): its pattern matches the text \<open>{{key}}\<close> and nothing else. A key whose
  only such characters are parentheses, more of one kind than of the other, is a syntax
  error: the constructor throws. For every other key the pattern is left to the
  regular-expression engine, a parameter of the model: \<open>engine source\<close> is \<open>None\<close> when
  \<open>new RegExp(source, 'g')\<close> throws, and otherwise the function that takes a subject
  and a replacement to \<open>subject.replace(pattern, replacement)\<close>.
\<close>

definition syntaxCharacters :: "char list" where
  "syntaxCharacters =
     [CHR ''^'', CHR ''$'', CHR 0x5C, CHR ''.'', CHR ''*'', CHR ''+'', CHR ''?'',
      CHR ''('', CHR '')'', CHR ''['', CHR '']'', CHR ''{'', CHR ''}'', CHR ''|'']"

definition plainName :: "string \<Rightarrow> bool" where
  "plainName key =
     ((\<forall>c \<in> set key. c \<notin> set syntaxCharacters) \<and>
      \<not> (key \<noteq> [] \<and> (\<forall>c \<in> set key. c \<in> set ''0123456789,'')))"

type_synonym regExpEngine = "string \<Rightarrow> (string \<Rightarrow> string \<Rightarrow> string) option"

datatype regexp = Literal string | Invalid | Compiled "string \<Rightarrow> string \<Rightarrow> string"

definition newRegExp :: "regExpEngine \<Rightarrow> string \<Rightarrow> regexp" where
  "newRegExp engine key =
     (if plainName key then Literal (''{{'' @ key @ ''}}'')
      else if (\<forall>c \<in> set key. c \<notin> set syntaxCharacters \<or> c = CHR ''('' \<or> c = CHR '')'')
              \<and> count_list key (CHR ''('') \<noteq> count_list key (CHR '')'')
        then Invalid
      else (case engine (''{{'' @ key @ ''}}'') of
              None \<Rightarrow> Invalid
            | Some re \<Rightarrow> Compiled re))"

text \<open>
  The replacement text of \<open>String.prototype.replace\<close> for one match of a pattern
  without groups: \<open>$$\<close> is a dollar, \<open>$&\<close> the match, \<open>$`\<close> the text preceding the
  match, \<open>$'\<close> the text following it; everything else stands for itself.
\<close>

fun getSubstitution :: "string \<Rightarrow> string \<Rightarrow> string \<Rightarrow> string \<Rightarrow> string" where
  "getSubstitution matched preceding following [] = []"
| "getSubstitution matched preceding following [c] = [c]"
| "getSubstitution matched preceding following (c # d # r) =
     (if c = CHR ''$'' \<and> d = CHR ''$'' then CHR ''$'' # getSubstitution matched preceding following r
      else if c = CHR ''$'' \<and> d = CHR ''&'' then matched @ getSubstitution matched preceding following r
      else if c = CHR ''$'' \<and> d = CHR 0x60 then preceding @ getSubstitution matched preceding following r
      else if c = CHR ''$'' \<and> d = CHR 0x27 then following @ getSubstitution matched preceding following r
      else c # getSubstitution matched preceding following (d # r))"

text \<open>
  \<open>str.replace(pattern, replacement)\<close> for a global pattern that matches the text
  \<open>pat\<close>: the matches are found from left to right and do not overlap;
  \<open>preceding\<close> is what has been passed of the subject. The patterns of \<open>render\<close> are
  never empty.
\<close>

function replaceAll :: "string \<Rightarrow> string \<Rightarrow> string \<Rightarrow> string \<Rightarrow> string" where
  "replaceAll pat rep preceding [] = []"
| "replaceAll pat rep preceding (c # cs) =
     (if pat \<noteq> [] \<and> prefix pat (c # cs)
        then getSubstitution pat preceding (drop (length pat) (c # cs)) rep
               @ replaceAll pat rep (preceding @ pat) (drop (length pat) (c # cs))
      else c # replaceAll pat rep (preceding @ [c]) cs)"
  by pat_completeness auto
termination
  by (relation "measure (\<lambda>(pat, rep, preceding, s). length s)") auto

definition replace :: "string \<Rightarrow> string \<Rightarrow> string \<Rightarrow> string" where
  "replace s pat rep = replaceAll pat rep [] s"

text \<open>
  The loop of \<open>render\<close> over \<open>Object.entries(variables)\<close>; \<open>htmlContent\<close> is replaced
  in only when it is a non-empty string.
\<close>

fun renderLoop :: "regExpEngine \<Rightarrow> content \<Rightarrow> obj \<Rightarrow> error + content" where
  "renderLoop engine c [] = Inr c"
| "renderLoop engine c ((key, v) # rest) =
     (case newRegExp engine key of
        Invalid \<Rightarrow> Inl SyntaxError
      | Literal placeholder \<Rightarrow>
          renderLoop engine
            \<lparr>c_title = replace (c_title c) placeholder (jsString v),
             c_message = replace (c_message c) placeholder (jsString v),
             c_htmlContent =
               (case c_htmlContent c of
                  Some h \<Rightarrow> if h \<noteq> [] then Some (replace h placeholder (jsString v)) else Some h
                | None \<Rightarrow> None)\<rparr>
            rest
      | Compiled re \<Rightarrow>
          renderLoop engine
            \<lparr>c_title = re (c_title c) (jsString v),
             c_message = re (c_message c) (jsString v),
             c_htmlContent =
               (case c_htmlContent c of
                  Some h \<Rightarrow> if h \<noteq> [] then Some (re h (jsString v)) else Some h
                | None \<Rightarrow> None)\<rparr>
            rest)"

text \<open>\<open>render\<close>: the \<open>catch\<close> returns the fields of the template as they were.\<close>

definition render :: "regExpEngine \<Rightarrow> content \<Rightarrow> obj \<Rightarrow> content" where
  "render engine template variables =
     (case renderLoop engine template variables of
        Inr rendered \<Rightarrow> rendered
      | Inl e \<Rightarrow> template)"

text \<open>
  The template cache: \<open>getCached\<close> drops an entry older than the time to live and
  moves a live one to the end; \<open>setCached\<close> evicts the first key of a full cache.
\<close>

type_synonym templateCache = "(string \<times> template \<times> int) list"

definition ttlMs :: int where
  "ttlMs = 5 * 60 * 1000"

definition maxSize :: nat where
  "maxSize = 500"

definition cacheDelete :: "string \<Rightarrow> templateCache \<Rightarrow> templateCache" where
  "cacheDelete key c = filter (\<lambda>entry. fst entry \<noteq> key) c"

definition cacheSet :: "string \<Rightarrow> template \<times> int \<Rightarrow> templateCache \<Rightarrow> templateCache" where
  "cacheSet key entry c =
     (if key \<in> set (map fst c) then map (\<lambda>e. if fst e = key then (key, entry) else e) c
      else c @ [(key, entry)])"

definition getCached :: "string \<Rightarrow> int \<Rightarrow> templateCache \<Rightarrow> template option \<times> templateCache" where
  "getCached key now c =
     (case map_of c key of
        None \<Rightarrow> (None, c)
      | Some (v, timestamp) \<Rightarrow>
          if now - timestamp > ttlMs then (None, cacheDelete key c)
          else (Some v, cacheSet key (v, now) (cacheDelete key c)))"

definition setCached :: "string \<Rightarrow> template \<Rightarrow> int \<Rightarrow> templateCache \<Rightarrow> templateCache" where
  "setCached key v now c =
     cacheSet key (v, now)
       (if length c \<ge> maxSize
          then (case c of [] \<Rightarrow> c | oldest # _ \<Rightarrow> cacheDelete (fst oldest) c)
        else c)"

section \<open>ChannelService\<close>

definition getUserEmail :: "world \<Rightarrow> string \<Rightarrow> string option" where
  "getUserEmail w userId =
     (case find (\<lambda>u. u_id u = userId) (users w) of
        Some u \<Rightarrow> given (u_email u)
      | None \<Rightarrow> None)"

definition getDeviceTokens :: "world \<Rightarrow> string \<Rightarrow> string list" where
  "getDeviceTokens w userId =
     map t_token (filter (\<lambda>t. t_userId t = userId \<and> t_isActive t) (deviceTokens w))"

text \<open>\<open>getNotificationTemplate(type, channel)\<close>: the cache first, then the store.\<close>

definition getNotificationTemplate ::
  "string \<Rightarrow> string \<Rightarrow> int \<Rightarrow> world \<Rightarrow> template option \<times> world" where
  "getNotificationTemplate type channel now w =
     (let cacheKey = type @ '':'' @ channel;
          (cached, c1) = getCached cacheKey now (cache w)
      in case cached of
           Some t \<Rightarrow> (Some t, w\<lparr>cache := c1\<rparr>)
         | None \<Rightarrow>
             (case find (\<lambda>t. tp_type t = type \<and> tp_channel t = channel \<and> tp_isActive t)
                     (templates w) of
                Some tpl \<Rightarrow> (Some tpl, w\<lparr>cache := setCached cacheKey tpl now c1\<rparr>)
              | None \<Rightarrow> (None, w\<lparr>cache := c1\<rparr>)))"

definition renderTemplate :: "regExpEngine \<Rightarrow> template \<Rightarrow> obj \<Rightarrow> content" where
  "renderTemplate engine template variables = render engine (tp_content template) variables"

section \<open>Workers\<close>

text \<open>
  \<open>{title, message, ...metadata}\<close> as \<open>Object.entries\<close> lists it. A property whose
  name is an array index (a decimal numeral without a leading zero, below
  \<open>2^32 - 1\<close>) comes before all others; only the metadata has such. Of the others, a
  property of the metadata with the name of an earlier one takes its place, a new one
  goes to the end.
\<close>

definition isArrayIndex :: "string \<Rightarrow> bool" where
  "isArrayIndex k =
     (k \<noteq> [] \<and> (\<forall>c \<in> set k. c \<in> set ''0123456789'') \<and>
      (k = ''0'' \<or> hd k \<noteq> CHR ''0'') \<and>
      foldl (\<lambda>n c. 10 * n + (of_char c - 48)) (0 :: nat) k < 4294967295)"

fun assign :: "obj \<Rightarrow> string \<Rightarrow> jsval \<Rightarrow> obj" where
  "assign [] k v = [(k, v)]"
| "assign ((k', v') # ob) k v = (if k' = k then (k, v) # ob else (k', v') # assign ob k v)"

definition variablesOf :: "jobData \<Rightarrow> obj" where
  "variablesOf jd =
     (let metadata = (case j_metadata jd of Some md \<Rightarrow> md | None \<Rightarrow> [])
      in filter (\<lambda>kv. isArrayIndex (fst kv)) metadata @
         foldl (\<lambda>ob kv. assign ob (fst kv) (snd kv))
           [(''title'', JStr (j_title jd)), (''message'', JStr (j_message jd))]
           (filter (\<lambda>kv. \<not> isArrayIndex (fst kv)) metadata))"

fun messageOf :: "error \<Rightarrow> string" where
  "messageOf (TypeError m) = m"
| "messageOf RecordNotFound = ''Record to update not found.''"
| "messageOf SyntaxError = ''Invalid regular expression''"
| "messageOf (Error m) = m"
| "messageOf (HttpException m code) = m"

text \<open>
  The subject and body an email job sends: the template asked for has type \<open>EMAIL\<close>
  and channel \<open>EMAIL\<close>; the body is \<open>rendered.htmlContent || rendered.message\<close>.
\<close>

definition emailContent ::
  "regExpEngine \<Rightarrow> int \<Rightarrow> jobData \<Rightarrow> world \<Rightarrow> (string \<times> string) \<times> world" where
  "emailContent engine now jd w =
     (case getNotificationTemplate ''EMAIL'' ''EMAIL'' now w of
        (None, w1) \<Rightarrow> ((j_title jd, j_message jd), w1)
      | (Some template, w1) \<Rightarrow>
          (let rendered = renderTemplate engine template (variablesOf jd)
           in ((c_title rendered,
                (case given (c_htmlContent rendered) of
                   Some h \<Rightarrow> h
                 | None \<Rightarrow> c_message rendered)), w1)))"

text \<open>
  The \<open>try\<close> block of \<open>EmailWorker.sendEmail\<close>. \<open>smtp\<close> is the answer of the mail
  server: an error message, or none when the mail is accepted. The sender address is
  configuration and left out.
\<close>

definition sendEmailTry ::
  "regExpEngine \<Rightarrow> int \<Rightarrow> string option \<Rightarrow> jobData \<Rightarrow> world \<Rightarrow> (error \<times> world) + world" where
  "sendEmailTry engine now smtp jd w =
     (case updateNotificationStatus now (j_notificationId jd) ''PROCESSING'' None w of
        Inl e \<Rightarrow> Inl (e, w)
      | Inr (r, w1) \<Rightarrow>
          (case getUserEmail w1 (j_userId jd) of
             None \<Rightarrow> Inl (Error (''No email found for user '' @ j_userId jd), w1)
           | Some email \<Rightarrow>
               (case emailContent engine now jd w1 of
                  ((finalTitle, finalMessage), w2) \<Rightarrow>
                    (case smtp of
                       Some failure \<Rightarrow> Inl (Error failure, w2)
                     | None \<Rightarrow>
                         (let w3 = w2\<lparr>mailsSent := mailsSent w2 @
                                      [\<lparr>m_to = email, m_subject = finalTitle,
                                        m_html = finalMessage\<rparr>]\<rparr>
                          in case updateNotificationStatus now (j_notificationId jd)
                                    ''SENT'' None w3 of
                               Inl e \<Rightarrow> Inl (e, w3)
                             | Inr (r', w4) \<Rightarrow> Inr w4)))))"

text \<open>\<open>sendEmail\<close>: the \<open>catch\<close> records the failure and throws the error again.\<close>

definition sendEmail ::
  "regExpEngine \<Rightarrow> int \<Rightarrow> string option \<Rightarrow> jobData \<Rightarrow> world \<Rightarrow> (error \<times> world) + world" where
  "sendEmail engine now smtp jd w =
     (case sendEmailTry engine now smtp jd w of
        Inr w' \<Rightarrow> Inr w'
      | Inl (e, w1) \<Rightarrow>
          (case updateNotificationStatus now (j_notificationId jd) ''FAILED''
                  (Some (messageOf e)) w1 of
             Inl e' \<Rightarrow> Inl (e', w1)
           | Inr (r, w2) \<Rightarrow> Inl (e, w2)))"

text \<open>
  The title and body a push job sends: the template asked for has type \<open>PUSH\<close> and
  channel \<open>PUSH\<close>.
\<close>

definition pushContent ::
  "regExpEngine \<Rightarrow> int \<Rightarrow> jobData \<Rightarrow> world \<Rightarrow> (string \<times> string) \<times> world" where
  "pushContent engine now jd w =
     (case getNotificationTemplate ''PUSH'' ''PUSH'' now w of
        (None, w1) \<Rightarrow> ((j_title jd, j_message jd), w1)
      | (Some template, w1) \<Rightarrow>
          (let rendered = renderTemplate engine template (variablesOf jd)
           in ((c_title rendered, c_message rendered), w1)))"

text \<open>
  The \<open>try\<close> block of \<open>PushWorker.sendPush\<close>. \<open>fcm\<close> is the answer of the push
  gateway for all the sends together: an error message, or none when every send is
  accepted; what a failed batch has delivered is not recorded.
\<close>

definition sendPushTry ::
  "regExpEngine \<Rightarrow> int \<Rightarrow> string option \<Rightarrow> jobData \<Rightarrow> world \<Rightarrow> (error \<times> world) + world" where
  "sendPushTry engine now fcm jd w =
     (case updateNotificationStatus now (j_notificationId jd) ''PROCESSING'' None w of
        Inl e \<Rightarrow> Inl (e, w)
      | Inr (r, w1) \<Rightarrow>
          (let deviceTokens = getDeviceTokens w1 (j_userId jd)
           in if deviceTokens = []
                then Inl (Error (''No device tokens found for user '' @ j_userId jd), w1)
              else
                (case pushContent engine now jd w1 of
                   ((finalTitle, finalMessage), w2) \<Rightarrow>
                     (case fcm of
                        Some failure \<Rightarrow> Inl (Error failure, w2)
                      | None \<Rightarrow>
                          (let w3 = w2\<lparr>pushesSent := pushesSent w2 @
                                       map (\<lambda>token.
                                              \<lparr>p_title = finalTitle, p_body = finalMessage,
                                               p_data = (case j_metadata jd of
                                                           Some md \<Rightarrow> md | None \<Rightarrow> []),
                                               p_token = token\<rparr>) deviceTokens\<rparr>
                           in case updateNotificationStatus now (j_notificationId jd)
                                     ''SENT'' None w3 of
                                Inl e \<Rightarrow> Inl (e, w3)
                              | Inr (r', w4) \<Rightarrow> Inr w4)))))"

definition sendPush ::
  "regExpEngine \<Rightarrow> int \<Rightarrow> string option \<Rightarrow> jobData \<Rightarrow> world \<Rightarrow> (error \<times> world) + world" where
  "sendPush engine now fcm jd w =
     (case sendPushTry engine now fcm jd w of
        Inr w' \<Rightarrow> Inr w'
      | Inl (e, w1) \<Rightarrow>
          (case updateNotificationStatus now (j_notificationId jd) ''FAILED''
                  (Some (messageOf e)) w1 of
             Inl e' \<Rightarrow> Inl (e', w1)
           | Inr (r, w2) \<Rightarrow> Inl (e, w2)))"

section \<open>KafkaProducer and the admin controller\<close>

text \<open>A message on topic \<open>notification.bulk\<close>: its key and the fields of its value.\<close>

record 'a bulkMessage =
  b_key :: string
  b_batchId :: string
  b_bulkNotifications :: "'a list"
  b_totalNotifications :: nat
  b_chunkIndex :: nat
  b_totalChunks :: nat

text \<open>
  The chunking loop of \<open>KafkaProducer.sendBulkNotifications\<close>:
  \<open>for (i = 0; i < length; i += 1000) chunks.push(notifications.slice(i, i + 1000))\<close>.
\<close>

function chunkLoop :: "nat \<Rightarrow> 'a list \<Rightarrow> 'a list list \<Rightarrow> 'a list list" where
  "chunkLoop i items chunks =
     (if i < length items
        then chunkLoop (i + 1000) items (chunks @ [take 1000 (drop i items)])
      else chunks)"
  by pat_completeness auto
termination
  by (relation "measure (\<lambda>(i, items, chunks). length items - i)") auto

declare chunkLoop.simps [simp del]

text \<open>
  \<open>KafkaProducer.sendBulkNotifications(notifications)\<close> without a batch id, the broker
  accepting every send: the messages produced, in the order of their chunks.
\<close>

definition producerSendBulkNotifications :: "int \<Rightarrow> 'a list \<Rightarrow> 'a bulkMessage list" where
  "producerSendBulkNotifications now items =
     (let batchIdFinal = ''bulk_'' @ showInt now;
          chunks = chunkLoop 0 items []
      in map (\<lambda>(index, chunk).
                \<lparr>b_key = batchIdFinal @ ''_chunk_'' @ showInt (int index),
                 b_batchId = batchIdFinal @ ''_chunk_'' @ showInt (int index),
                 b_bulkNotifications = chunk,
                 b_totalNotifications = length items,
                 b_chunkIndex = index,
                 b_totalChunks = length chunks\<rparr>)
           (zip [0 ..< length chunks] chunks))"

record bulkResponse =
  r_success :: bool
  r_message :: string
  r_batchId :: string

text \<open>
  The body of a request to the bulk endpoint, as it arrives. A field of an item is a
  primitive value (\<open>undefined\<close> when the item has no such property); the metadata is a
  primitive or an object. An item is such an object or a primitive, and the property
  \<open>notifications\<close> is an array of items or something else.
\<close>

record SendNotificationDto =
  dto_userId :: jsval
  dto_type :: jsval
  dto_title :: jsval
  dto_message :: jsval
  dto_channel :: jsval
  dto_priority :: jsval
  dto_metadata :: "jsval + obj"
  dto_scheduledAt :: jsval

datatype payloadItem = Primitive jsval | Object SendNotificationDto

datatype notificationsProperty = NotAnArray jsval | Array "payloadItem list"

text \<open>The values of the enums \<open>NotificationType\<close>, \<open>NotificationChannel\<close>, \<open>NotificationPriority\<close>.\<close>

definition notificationTypes :: "string list" where
  "notificationTypes =
     [''WELCOME'', ''PASSWORD_RESET'', ''EMAIL_VERIFICATION'', ''ORDER_CONFIRMATION'',
      ''ORDER_SHIPPED'', ''ORDER_DELIVERED'', ''PAYMENT_SUCCESS'', ''PAYMENT_FAILED'']"

definition notificationChannels :: "string list" where
  "notificationChannels = [''EMAIL'', ''PUSH'', ''SMS'']"

definition notificationPriorities :: "string list" where
  "notificationPriorities = [''LOW'', ''NORMAL'', ''HIGH'', ''URGENT'']"

text \<open>
  The decorators of \<open>SendNotificationDto\<close>, as class-validator reads them.
  \<open>@IsOptional\<close> skips the other checks of a property that is \<open>undefined\<close> or \<open>null\<close>.
  \<open>@IsDateString\<close> asks for a string in ISO 8601 format; which strings are, is the
  parameter \<open>isISO8601\<close>.
\<close>

definition isString :: "jsval \<Rightarrow> bool" where
  "isString v = (case v of JStr s \<Rightarrow> True | _ \<Rightarrow> False)"

definition isNotEmpty :: "jsval \<Rightarrow> bool" where
  "isNotEmpty v = (v \<noteq> JStr [] \<and> v \<noteq> JNull \<and> v \<noteq> JUndefined)"

definition maxLength :: "nat \<Rightarrow> jsval \<Rightarrow> bool" where
  "maxLength n v = (case v of JStr s \<Rightarrow> length s \<le> n | _ \<Rightarrow> False)"

definition isEnum :: "string list \<Rightarrow> jsval \<Rightarrow> bool" where
  "isEnum enumValues v = (v \<in> set (map JStr enumValues))"

definition isOptional :: "jsval \<Rightarrow> bool" where
  "isOptional v = (v = JUndefined \<or> v = JNull)"

definition isDateString :: "(string \<Rightarrow> bool) \<Rightarrow> jsval \<Rightarrow> bool" where
  "isDateString isISO8601 v = (case v of JStr s \<Rightarrow> isISO8601 s | _ \<Rightarrow> False)"

definition validDto :: "(string \<Rightarrow> bool) \<Rightarrow> SendNotificationDto \<Rightarrow> bool" where
  "validDto isISO8601 d =
     (isString (dto_userId d) \<and> isNotEmpty (dto_userId d) \<and>
      isEnum notificationTypes (dto_type d) \<and> isString (dto_type d) \<and>
      isString (dto_title d) \<and> isNotEmpty (dto_title d) \<and> maxLength 200 (dto_title d) \<and>
      isString (dto_message d) \<and> isNotEmpty (dto_message d) \<and>
      (isOptional (dto_channel d) \<or>
         isEnum notificationChannels (dto_channel d) \<and> isString (dto_channel d)) \<and>
      (isOptional (dto_priority d) \<or>
         isEnum notificationPriorities (dto_priority d) \<and> isString (dto_priority d)) \<and>
      (case dto_metadata d of Inl v \<Rightarrow> isOptional v | Inr ob \<Rightarrow> True) \<and>
      (isOptional (dto_scheduledAt d) \<or> isDateString isISO8601 (dto_scheduledAt d)))"

text \<open>
  \<open>@ValidateNested({ each: true })\<close> with \<open>@Type(() => SendNotificationDto)\<close>: an item
  passes when it is an object that passes the checks above.
\<close>

definition validItem :: "(string \<Rightarrow> bool) \<Rightarrow> payloadItem \<Rightarrow> bool" where
  "validItem isISO8601 item =
     (case item of Object d \<Rightarrow> validDto isISO8601 d | Primitive v \<Rightarrow> False)"

definition dtosOf :: "payloadItem list \<Rightarrow> SendNotificationDto list" where
  "dtosOf items = concat (map (\<lambda>item. case item of Object d \<Rightarrow> [d] | Primitive v \<Rightarrow> []) items)"

text \<open>
  \<open>@UsePipes(new ValidationPipe({ transform: true, whitelist: true }))\<close> on
  \<open>BulkNotificationsDto\<close> (\<open>@IsArray\<close>, \<open>@ValidateNested\<close>): it runs before the
  method and answers a body that fails with a \<open>BadRequestException\<close>, an
  \<open>HttpException\<close> of status 400; the method gets the items of a body that passes.
\<close>

definition validationPipe ::
  "(string \<Rightarrow> bool) \<Rightarrow> notificationsProperty \<Rightarrow> error + SendNotificationDto list" where
  "validationPipe isISO8601 payload =
     (case payload of
        NotAnArray v \<Rightarrow> Inl (HttpException ''Bad Request Exception'' 400)
      | Array items \<Rightarrow>
          if \<forall>item \<in> set items. validItem isISO8601 item then Inr (dtosOf items)
          else Inl (HttpException ''Bad Request Exception'' 400))"

text \<open>
  The body of the method \<open>NotificationController.sendBulkNotifications\<close>;
  \<open>body.notifications\<close> is \<open>None\<close> when it is \<open>undefined\<close>.
  \<open>HttpStatus.BAD_REQUEST\<close> is 400.
\<close>

definition sendBulkNotificationsBody ::
  "int \<Rightarrow> 'a list option \<Rightarrow> error + (bulkResponse \<times> 'a bulkMessage list)" where
  "sendBulkNotificationsBody now items =
     (case items of
        None \<Rightarrow> Inl (HttpException ''No notifications provided'' 400)
      | Some ns \<Rightarrow>
          if length ns = 0 then Inl (HttpException ''No notifications provided'' 400)
          else if length ns > 10000
            then Inl (HttpException ''Too many notifications. Maximum 10,000 per request.'' 400)
          else Inr (\<lparr>r_success = True,
                      r_message = showInt (int (length ns)) @ '' notifications queued for processing'',
                      r_batchId = ''admin_'' @ showInt now\<rparr>,
                    producerSendBulkNotifications now ns))"

text \<open>The endpoint \<open>POST admin/notifications/bulk\<close>: the pipe, then the method.\<close>

definition sendBulkNotifications ::
  "(string \<Rightarrow> bool) \<Rightarrow> int \<Rightarrow> notificationsProperty \<Rightarrow>
     error + (bulkResponse \<times> SendNotificationDto bulkMessage list)" where
  "sendBulkNotifications isISO8601 now payload =
     (case validationPipe isISO8601 payload of
        Inl e \<Rightarrow> Inl e
      | Inr items \<Rightarrow> sendBulkNotificationsBody now (Some items))"

section \<open>Observations and example data\<close>

text \<open>The jobs that are in the queues of \<open>w'\<close> and were not in those of \<open>w\<close>.\<close>

definition jobsAdded :: "world \<Rightarrow> world \<Rightarrow> job list" where
  "jobsAdded w w' =
     drop (length (emailQueue w)) (emailQueue w') @
     drop (length (pushQueue w)) (pushQueue w') @
     drop (length (smsQueue w)) (smsQueue w')"

definition u2Preferences :: "obj list" where
  "u2Preferences =
     [[(''userId'', JStr ''u2''), (''channel'', JStr ''EMAIL''), (''isEnabled'', JBool True)],
      [(''userId'', JStr ''u2''), (''channel'', JStr ''PUSH''), (''isEnabled'', JBool False)]]"

text \<open>The jobs that one dispatch adds to the queues; none when it throws.\<close>

definition dispatchedJobs :: "int \<Rightarrow> NotificationData \<Rightarrow> world \<Rightarrow> job list" where
  "dispatchedJobs now nd w =
     (case sendNotification now nd w of Inr (n, w') \<Rightarrow> jobsAdded w w' | Inl e \<Rightarrow> [])"

definition emptyWorld :: world where
  "emptyWorld =
     \<lparr>notifications = [], userPreferences = [], users = [], deviceTokens = [],
      templates = [], cache = [], emailQueue = [], pushQueue = [], smsQueue = [],
      nextId = 0, mailsSent = [], pushesSent = []\<rparr>"

definition u2World :: world where
  "u2World = emptyWorld\<lparr>userPreferences := u2Preferences\<rparr>"

definition orderRequest :: NotificationData where
  "orderRequest =
     \<lparr>d_userId = ''u2'', d_type = ''ORDER_CONFIRMATION'', d_title = ''t'',
      d_message = ''m'', d_channel = None, d_priority = None, d_metadata = None,
      d_scheduledAt = None\<rparr>"

definition urgentRequest :: NotificationData where
  "urgentRequest =
     \<lparr>d_userId = ''u3'', d_type = ''PAYMENT_FAILED'', d_title = ''t'',
      d_message = ''m'', d_channel = Some ''EMAIL'', d_priority = Some ''URGENT'',
      d_metadata = None, d_scheduledAt = Some 31000\<rparr>"

definition failedRow :: notification where
  "failedRow =
     \<lparr>n_id = 7, n_userId = ''u4'', n_title = ''Order Shipped'', n_message = ''on its way'',
      n_type = ''ORDER_SHIPPED'', n_channel = ''PUSH'', n_priority = ''NORMAL'',
      n_metadata = None, n_scheduledAt = None, n_status = ''PROCESSING'', n_retryCount = 0,
      n_createdAt = 100, n_updatedAt = 200, n_sentAt = None, n_failedAt = None,
      n_errorMessage = None\<rparr>"

definition pastRequest :: NotificationData where
  "pastRequest = urgentRequest\<lparr>d_scheduledAt := Some 400\<rparr>"

text \<open>
  What a retry pass does to a stored row \<open>r\<close> when it processes the selected row
  \<open>n\<close>, and the jobs it adds to one queue for the selected rows, the first of which
  is stored again under id \<open>firstId\<close>.
\<close>

definition retried :: "notification \<Rightarrow> notification \<Rightarrow> notification" where
  "retried n r = (if n_id r = n_id n then r\<lparr>n_retryCount := n_retryCount n + 1\<rparr> else r)"




definition retryJobs :: "string \<Rightarrow> string \<Rightarrow> int \<Rightarrow> nat \<Rightarrow> notification list \<Rightarrow> job list" where
  "retryJobs channel name now firstId rows =
     map (\<lambda>(i, r). mkJob name (retryData r) (createNotification (retryData r) now i) now)
       (filter (\<lambda>(i, r). n_channel r = channel) (enumerate firstId rows))"

text \<open>The token \<open>{{key}}\<close> occurs nowhere in the three fields.\<close>

definition tokenFree :: "string \<Rightarrow> content \<Rightarrow> bool" where
  "tokenFree key c =
     (\<not> sublist (''{{'' @ key @ ''}}'') (c_title c) \<and>
      \<not> sublist (''{{'' @ key @ ''}}'') (c_message c) \<and>
      (case c_htmlContent c of Some h \<Rightarrow> \<not> sublist (''{{'' @ key @ ''}}'') h | None \<Rightarrow> True))"

definition orderTemplate :: template where
  "orderTemplate =
     \<lparr>tp_id = 1, tp_type = ''ORDER_CONFIRMATION'', tp_channel = ''EMAIL'',
      tp_content = \<lparr>c_title = ''Order {{orderId}} confirmed'',
                    c_message = ''Thank you, your order {{orderId}} is confirmed.'',
                    c_htmlContent = None\<rparr>,
      tp_isActive = True\<rparr>"

definition orderRow :: notification where
  "orderRow = createNotification (orderRequest\<lparr>d_channel := Some ''EMAIL''\<rparr>) 900 0"

definition orderJob :: jobData where
  "orderJob =
     \<lparr>j_notificationId = 0, j_userId = ''u2'', j_title = ''t'', j_message = ''m'',
      j_metadata = Some [(''orderId'', JStr ''42'')]\<rparr>"

definition orderWorld :: world where
  "orderWorld =
     emptyWorld\<lparr>notifications := [orderRow],
                users := [\<lparr>u_id = ''u2'', u_email = Some ''ada@example.com'', u_phone = None\<rparr>],
                templates := [orderTemplate], nextId := 1\<rparr>"

definition saleTemplate :: content where
  "saleTemplate = \<lparr>c_title = ''{{title}}'', c_message = ''{{message}}'', c_htmlContent = None\<rparr>"

definition saleVariables :: obj where
  "saleVariables = [(''title'', JStr ''Save $$$ today''), (''message'', JStr ''m'')]"

definition greeting :: content where
  "greeting = \<lparr>c_title = ''Hi {{name}}'', c_message = ''Order {{orderId}} for {{who}}'',
                c_htmlContent = Some ''<b>{{name}}</b>''\<rparr>"

definition greetingVariables :: obj where
  "greetingVariables = [(''name'', JStr ''Ada''), (''orderId'', JNum 42)]"

definition greetingRendered :: content where
  "greetingRendered = \<lparr>c_title = ''Hi Ada'', c_message = ''Order 42 for {{who}}'',
                c_htmlContent = Some ''<b>Ada</b>''\<rparr>"

definition noteTemplate :: content where
  "noteTemplate = \<lparr>c_title = ''{{note}}'', c_message = ''m'', c_htmlContent = None\<rparr>"

definition noteVariables :: obj where
  "noteVariables = [(''title'', JStr ''Sale''), (''note'', JStr ''{{title}}!'')]"

definition promoRequest :: NotificationData where
  "promoRequest = orderRequest\<lparr>d_type := ''PROMOTION''\<rparr>"

definition shippedTemplate :: template where
  "shippedTemplate =
     \<lparr>tp_id = 2, tp_type = ''ORDER_SHIPPED'', tp_channel = ''PUSH'',
      tp_content = \<lparr>c_title = ''Order {{orderId}} shipped'',
                    c_message = ''Track it: {{trackingNumber}}'',
                    c_htmlContent = None\<rparr>,
      tp_isActive = True\<rparr>"

definition shippedRow :: notification where
  "shippedRow = failedRow\<lparr>n_id := 1, n_userId := ''u2'', n_status := ''QUEUED''\<rparr>"

definition shippedJob :: jobData where
  "shippedJob =
     \<lparr>j_notificationId = 1, j_userId = ''u2'', j_title = ''t'', j_message = ''m'',
      j_metadata = Some [(''orderId'', JStr ''42''), (''trackingNumber'', JStr ''TN7'')]\<rparr>"

definition workerWorld :: world where
  "workerWorld =
     orderWorld\<lparr>notifications := [orderRow, shippedRow],
                deviceTokens := [\<lparr>t_userId = ''u2'', t_token = ''tok1'',
                                  t_platform = ''ios'', t_isActive = True\<rparr>],
                templates := [orderTemplate, shippedTemplate], nextId := 2\<rparr>"

text \<open>
  An engine that compiles no pattern, for examples in which every name is plain and the
  engine is not asked; and a date check that passes every string, for examples without
  dates.
\<close>

definition noEngine :: regExpEngine where
  "noEngine source = None"

definition lenientDates :: "string \<Rightarrow> bool" where
  "lenientDates s = True"

definition welcomeDto :: SendNotificationDto where
  "welcomeDto =
     \<lparr>dto_userId = JStr ''u1'', dto_type = JStr ''WELCOME'', dto_title = JStr ''Welcome!'',
      dto_message = JStr ''Hello'', dto_channel = JUndefined, dto_priority = JStr ''HIGH'',
      dto_metadata = Inr [(''userName'', JStr ''Ada'')], dto_scheduledAt = JUndefined\<rparr>"

definition testDto :: SendNotificationDto where
  "testDto = welcomeDto\<lparr>dto_type := JStr ''TEST''\<rparr>"

section \<open>Dispatch: what \<open>sendNotification\<close> stores and enqueues\<close>

lemma enqueue_queues:
  "emailQueue (enqueue nd n now w c) =
     emailQueue w @ (if c = ''EMAIL'' then [mkJob ''send-email'' nd n now] else [])"
  "pushQueue (enqueue nd n now w c) =
     pushQueue w @ (if c = ''PUSH'' then [mkJob ''send-push'' nd n now] else [])"
  "smsQueue (enqueue nd n now w c) =
     smsQueue w @ (if c = ''SMS'' then [mkJob ''send-sms'' nd n now] else [])"
  by (simp_all add: enqueue_def)

lemma enqueue_frame:
  "notifications (enqueue nd n now w c) = notifications w"
  "userPreferences (enqueue nd n now w c) = userPreferences w"
  "nextId (enqueue nd n now w c) = nextId w"
  by (simp_all add: enqueue_def)

lemma foldl_enqueue_frame:
  "notifications (foldl (enqueue nd n now) w cs) = notifications w"
  "userPreferences (foldl (enqueue nd n now) w cs) = userPreferences w"
  "nextId (foldl (enqueue nd n now) w cs) = nextId w"
  by (induction cs arbitrary: w; simp add: enqueue_frame)+

lemma foldl_enqueue_email:
  "emailQueue (foldl (enqueue nd n now) w cs) =
     emailQueue w @ map (\<lambda>c. mkJob ''send-email'' nd n now) (filter (\<lambda>c. c = ''EMAIL'') cs)"
  by (induction cs arbitrary: w) (simp_all add: enqueue_queues)

lemma foldl_enqueue_push:
  "pushQueue (foldl (enqueue nd n now) w cs) =
     pushQueue w @ map (\<lambda>c. mkJob ''send-push'' nd n now) (filter (\<lambda>c. c = ''PUSH'') cs)"
  by (induction cs arbitrary: w) (simp_all add: enqueue_queues)

lemma foldl_enqueue_sms:
  "smsQueue (foldl (enqueue nd n now) w cs) =
     smsQueue w @ map (\<lambda>c. mkJob ''send-sms'' nd n now) (filter (\<lambda>c. c = ''SMS'') cs)"
  by (induction cs arbitrary: w) (simp_all add: enqueue_queues)

lemma sendNotification_Inr:
  assumes "sendNotification now nd w = Inr (n, w')"
  obtains cs where
    "determineChannels nd (getUserPreferences w (d_userId nd)) = Inr cs"
    "n = createNotification nd now (nextId w)"
    "w' = foldl (enqueue nd n now)
            (w\<lparr>notifications := notifications w @ [n], nextId := Suc (nextId w)\<rparr>) cs"
  using assms
  by (auto simp: sendNotification_def Let_def getUserPreferences_def split: sum.splits)

lemma sendNotification_jobsAdded:
  assumes "sendNotification now nd w = Inr (n, w')"
    and "j \<in> set (jobsAdded w w')"
  shows "\<exists>name. j = mkJob name nd n now"
proof -
  from assms(1) obtain cs where
    w': "w' = foldl (enqueue nd n now)
            (w\<lparr>notifications := notifications w @ [n], nextId := Suc (nextId w)\<rparr>) cs"
    by (rule sendNotification_Inr)
  from assms(2) show ?thesis
    unfolding jobsAdded_def w'
    by (auto simp: foldl_enqueue_email foldl_enqueue_push foldl_enqueue_sms)
qed

lemma dispatchedJobs_mkJob:
  assumes "j \<in> set (dispatchedJobs now nd w)"
  shows "\<exists>name n. j = mkJob name nd n now"
proof (cases "sendNotification now nd w")
  case (Inl e)
  with assms show ?thesis by (simp add: dispatchedJobs_def)
next
  case (Inr r)
  obtain n w' where r: "r = (n, w')" by (cases r)
  with Inr assms have "j \<in> set (jobsAdded w w')" by (simp add: dispatchedJobs_def)
  with Inr r show ?thesis using sendNotification_jobsAdded by blast
qed

lemma dispatchedJobs_urgentRequest:
  "dispatchedJobs 1000 urgentRequest emptyWorld =
     [mkJob ''send-email'' urgentRequest (createNotification urgentRequest 1000 0) 1000]"
  by (simp add: dispatchedJobs_def urgentRequest_def emptyWorld_def sendNotification_def
      Let_def getUserPreferences_def determineChannels_def given_def enqueue_def
      jobsAdded_def)

lemma dispatchedJobs_pastRequest:
  "dispatchedJobs 1000 pastRequest emptyWorld =
     [mkJob ''send-email'' pastRequest (createNotification pastRequest 1000 0) 1000]"
  by (simp add: dispatchedJobs_def pastRequest_def urgentRequest_def emptyWorld_def
      sendNotification_def Let_def getUserPreferences_def determineChannels_def given_def
      enqueue_def jobsAdded_def)

section \<open>Target channels\<close>

text \<open>
  Claim C1, at the input of its example: user u2 has the preference rows (EMAIL, true)
  and (PUSH, false), the request has type ORDER_CONFIRMATION and pins no channel. The
  claim has exactly one job, on the email queue. \<open>determineChannels\<close> reads
  \<open>pref.enabled\<close>, which no preference row has (the property is \<open>isEnabled\<close>), so no
  channel counts as enabled, nothing is filtered, and two jobs are added: one on the
  email queue and one on the push queue.
\<close>

theorem determineChannels_ignores_preferences:
  "determineChannels orderRequest (getUserPreferences u2World ''u2'') =
     Inr [''EMAIL'', ''PUSH''] \<and>
   map q_name (dispatchedJobs 1000 orderRequest u2World) = [''send-email'', ''send-push'']"
  by (simp add: dispatchedJobs_def orderRequest_def u2World_def u2Preferences_def
      emptyWorld_def sendNotification_def Let_def getUserPreferences_def
      determineChannels_def given_def getProp_def lookupRecord_def defaultChannels_def
      enqueue_def jobsAdded_def mkJob_def)

text \<open>
  Claim C10, at a type that is none of the eight and names a member every object
  inherits: the claim has the default channels {EMAIL}. The lookup in the table of
  defaults finds the inherited member, the fallback to EMAIL is not taken, and the
  dispatch throws once the notification is stored; no job is added.
\<close>

theorem determineChannels_inherited_type:
  "determineChannels (orderRequest\<lparr>d_type := ''constructor''\<rparr>) [] =
     Inl (TypeError ''typeChannels.filter is not a function'') \<and>
   dispatchedJobs 1000 (orderRequest\<lparr>d_type := ''constructor''\<rparr>) emptyWorld = []"
  by (simp add: dispatchedJobs_def orderRequest_def emptyWorld_def sendNotification_def
      Let_def getUserPreferences_def determineChannels_def given_def getProp_def
      lookupRecord_def defaultChannels_def objectPrototypeKeys_def)

section \<open>Priorities and delays\<close>



text \<open>
  Claim C4 as stated fails: for a request scheduled in the past (at 400, dispatched at
  1000) the delay handed to the queue is negative (-600), not 0.
\<close>

theorem enqueue_delay_counterexample:
  "d_scheduledAt pastRequest = Some 400 \<and>
   map q_delay (dispatchedJobs 1000 pastRequest emptyWorld) = [- 600]"
  unfolding dispatchedJobs_pastRequest
  by (simp add: mkJob_def enqueueDelay_def pastRequest_def)

text \<open>
  Claim C4, amended. For every job a dispatch adds to a queue, the delay is 0 when
  scheduledAt is absent and scheduledAt minus now when it is present, in the future or
  in the past; so the delay is non-negative exactly when scheduledAt is absent or not
  before now, and now plus the delay is scheduledAt whenever there is one: the job is
  not due before scheduledAt.
\<close>

theorem enqueue_delay:
  assumes "j \<in> set (dispatchedJobs now nd w)"
  shows "q_delay j = (case d_scheduledAt nd of None \<Rightarrow> 0 | Some t \<Rightarrow> t - now) \<and>
         (0 \<le> q_delay j \<longleftrightarrow> (case d_scheduledAt nd of None \<Rightarrow> True | Some t \<Rightarrow> now \<le> t)) \<and>
         (case d_scheduledAt nd of None \<Rightarrow> True | Some t \<Rightarrow> now + q_delay j = t)"
  using dispatchedJobs_mkJob [OF assms]
  by (auto simp: mkJob_def enqueueDelay_def split: option.splits)

theorem enqueue_delay_witness:
  "map q_delay (dispatchedJobs 1000 urgentRequest emptyWorld) = [30000] \<and>
   d_scheduledAt urgentRequest = Some 31000"
proof -
  let ?j = "mkJob ''send-email'' urgentRequest (createNotification urgentRequest 1000 0) 1000"
  have "?j \<in> set (dispatchedJobs 1000 urgentRequest emptyWorld)"
    by (simp add: dispatchedJobs_urgentRequest)
  from enqueue_delay [OF this] have "q_delay ?j = 30000"
    by (simp add: urgentRequest_def)
  moreover have "d_scheduledAt urgentRequest = Some 31000"
    by (simp add: urgentRequest_def)
  ultimately show ?thesis
    unfolding dispatchedJobs_urgentRequest by simp
qed

section \<open>Status updates\<close>

lemma zip_map_self:
  "(a, b) \<in> set (zip xs (map f xs)) \<Longrightarrow> b = f a"
  by (induction xs) auto

lemma updateRow_exists:
  assumes "r \<in> set (notifications w)" and "n_id r = i"
  shows "\<exists>r0. updateRow i f w =
           Inr (f r0, w\<lparr>notifications :=
                           map (\<lambda>r. if n_id r = i then f r else r) (notifications w)\<rparr>)"
proof (cases "find (\<lambda>r. n_id r = i) (notifications w)")
  case None
  with assms show ?thesis by (auto simp: find_None_iff)
next
  case (Some r0)
  then show ?thesis by (auto simp: updateRow_def)
qed

text \<open>
  Claim C7. A call of \<open>updateNotificationStatus\<close> for the id of a stored notification
  succeeds and changes that row only: the status is the new one and updatedAt is now;
  sentAt is set (to now) exactly when the new status is SENT; failedAt (to now) and
  errorMessage (to the message given, if one is) exactly when it is FAILED; id, userId,
  type, channel, title, message, metadata, priority, retryCount, scheduledAt and
  createdAt are as they were. Every other row and every other part of the world is
  unchanged.
\<close>

theorem updateNotificationStatus_effect:
  assumes "r \<in> set (notifications w)" and "n_id r = nid"
  shows "\<exists>r' w'. updateNotificationStatus now nid status errorMessage w = Inr (r', w') \<and>
     length (notifications w') = length (notifications w) \<and>
     (\<forall>(old, new) \<in> set (zip (notifications w) (notifications w')).
        if n_id old = nid
        then n_status new = status \<and> n_updatedAt new = now \<and>
             n_sentAt new = (if status = ''SENT'' then Some now else n_sentAt old) \<and>
             n_failedAt new = (if status = ''FAILED'' then Some now else n_failedAt old) \<and>
             n_errorMessage new =
               (if status = ''FAILED''
                then (case errorMessage of Some m \<Rightarrow> Some m | None \<Rightarrow> n_errorMessage old)
                else n_errorMessage old) \<and>
             n_id new = n_id old \<and> n_userId new = n_userId old \<and>
             n_type new = n_type old \<and> n_channel new = n_channel old \<and>
             n_title new = n_title old \<and> n_message new = n_message old \<and>
             n_metadata new = n_metadata old \<and> n_priority new = n_priority old \<and>
             n_retryCount new = n_retryCount old \<and>
             n_scheduledAt new = n_scheduledAt old \<and> n_createdAt new = n_createdAt old
        else new = old) \<and>
     w' = w\<lparr>notifications := notifications w'\<rparr>"
proof -
  let ?f = "updateData now status errorMessage"
  let ?w' = "w\<lparr>notifications := map (\<lambda>r. if n_id r = nid then ?f r else r) (notifications w)\<rparr>"
  from updateRow_exists [OF assms] obtain r0 where
    u: "updateNotificationStatus now nid status errorMessage w = Inr (?f r0, ?w')"
    unfolding updateNotificationStatus_def by blast
  have "if n_id old = nid
        then n_status new = status \<and> n_updatedAt new = now \<and>
             n_sentAt new = (if status = ''SENT'' then Some now else n_sentAt old) \<and>
             n_failedAt new = (if status = ''FAILED'' then Some now else n_failedAt old) \<and>
             n_errorMessage new =
               (if status = ''FAILED''
                then (case errorMessage of Some m \<Rightarrow> Some m | None \<Rightarrow> n_errorMessage old)
                else n_errorMessage old) \<and>
             n_id new = n_id old \<and> n_userId new = n_userId old \<and>
             n_type new = n_type old \<and> n_channel new = n_channel old \<and>
             n_title new = n_title old \<and> n_message new = n_message old \<and>
             n_metadata new = n_metadata old \<and> n_priority new = n_priority old \<and>
             n_retryCount new = n_retryCount old \<and>
             n_scheduledAt new = n_scheduledAt old \<and> n_createdAt new = n_createdAt old
        else new = old"
    if "(old, new) \<in> set (zip (notifications w) (notifications ?w'))" for old new
  proof -
    from that have "new = (if n_id old = nid then ?f old else old)"
      using zip_map_self [of old new "notifications w"
          "\<lambda>r. if n_id r = nid then ?f r else r"]
      by simp
    then show ?thesis
      by (simp add: updateData_def Let_def)
  qed
  then have "\<forall>(old, new) \<in> set (zip (notifications w) (notifications ?w')).
        if n_id old = nid
        then n_status new = status \<and> n_updatedAt new = now \<and>
             n_sentAt new = (if status = ''SENT'' then Some now else n_sentAt old) \<and>
             n_failedAt new = (if status = ''FAILED'' then Some now else n_failedAt old) \<and>
             n_errorMessage new =
               (if status = ''FAILED''
                then (case errorMessage of Some m \<Rightarrow> Some m | None \<Rightarrow> n_errorMessage old)
                else n_errorMessage old) \<and>
             n_id new = n_id old \<and> n_userId new = n_userId old \<and>
             n_type new = n_type old \<and> n_channel new = n_channel old \<and>
             n_title new = n_title old \<and> n_message new = n_message old \<and>
             n_metadata new = n_metadata old \<and> n_priority new = n_priority old \<and>
             n_retryCount new = n_retryCount old \<and>
             n_scheduledAt new = n_scheduledAt old \<and> n_createdAt new = n_createdAt old
        else new = old"
    by blast
  moreover have "length (notifications ?w') = length (notifications w)" by simp
  moreover have "?w' = w\<lparr>notifications := notifications ?w'\<rparr>" by simp
  ultimately show ?thesis using u by blast
qed

theorem updateNotificationStatus_effect_witness:
  "failedRow \<in> set (notifications (emptyWorld\<lparr>notifications := [failedRow]\<rparr>)) \<and>
   n_id failedRow = 7 \<and>
   (\<exists>r'. updateNotificationStatus 300 7 ''FAILED'' (Some ''No device tokens'')
            (emptyWorld\<lparr>notifications := [failedRow]\<rparr>) =
          Inr (r', emptyWorld\<lparr>notifications := [r']\<rparr>) \<and>
          r' = failedRow\<lparr>n_status := ''FAILED'', n_updatedAt := 300, n_failedAt := Some 300,
                         n_errorMessage := Some ''No device tokens''\<rparr>)"
proof -
  let ?w = "emptyWorld\<lparr>notifications := [failedRow]\<rparr>"
  have a: "failedRow \<in> set (notifications ?w)" by simp
  have b: "n_id failedRow = 7" by (simp add: failedRow_def)
  from updateNotificationStatus_effect [OF a b, of 300 "''FAILED''" "Some ''No device tokens''"]
  obtain r' w' where
    u: "updateNotificationStatus 300 7 ''FAILED'' (Some ''No device tokens'') ?w = Inr (r', w')"
    by blast
  then have "w' = emptyWorld\<lparr>notifications := [r']\<rparr>"
    and "r' = failedRow\<lparr>n_status := ''FAILED'', n_updatedAt := 300, n_failedAt := Some 300,
                         n_errorMessage := Some ''No device tokens''\<rparr>"
    by (auto simp: updateNotificationStatus_def updateRow_def updateData_def failedRow_def
        emptyWorld_def)
  with u a b show ?thesis by blast
qed

section \<open>Retry of failed notifications\<close>

lemma retryJobs_Nil [simp]: "retryJobs channel name now i [] = []"
  by (simp add: retryJobs_def)


lemma n_id_retried [simp]: "n_id (retried n r) = n_id r"
  by (simp add: retried_def)




lemma n_id_fold_retried [simp]: "n_id (fold retried sel r) = n_id r"
  by (induction sel arbitrary: r) simp_all










section \<open>The bulk endpoint\<close>

lemma concat_chunkLoop:
  "concat (chunkLoop i items chunks) = concat chunks @ drop i items"
proof (induction i items chunks rule: chunkLoop.induct)
  case (1 i items chunks)
  show ?case
  proof (cases "i < length items")
    case True
    then have "chunkLoop i items chunks =
                 chunkLoop (i + 1000) items (chunks @ [take 1000 (drop i items)])"
      by (subst chunkLoop.simps) simp
    moreover have "take 1000 (drop i items) @ drop (i + 1000) items = drop i items"
      by (metis add.commute append_take_drop_id drop_drop)
    ultimately show ?thesis using "1.IH" [OF True] by simp
  next
    case False
    then have "chunkLoop i items chunks = chunks"
      by (subst chunkLoop.simps) simp
    with False show ?thesis by simp
  qed
qed

lemma chunkLoop_sizes:
  assumes "c \<in> set (chunkLoop i items chunks)"
  shows "c \<in> set chunks \<or> (c \<noteq> [] \<and> length c \<le> 1000)"
  using assms
proof (induction i items chunks rule: chunkLoop.induct)
  case (1 i items chunks)
  show ?case
  proof (cases "i < length items")
    case True
    then have "chunkLoop i items chunks =
                 chunkLoop (i + 1000) items (chunks @ [take 1000 (drop i items)])"
      by (subst chunkLoop.simps) simp
    with "1.prems" "1.IH" [OF True] True show ?thesis by auto
  next
    case False
    then have "chunkLoop i items chunks = chunks"
      by (subst chunkLoop.simps) simp
    with "1.prems" show ?thesis by simp
  qed
qed

lemma producer_chunks:
  "map b_bulkNotifications (producerSendBulkNotifications now items) = chunkLoop 0 items []"
  by (simp add: producerSendBulkNotifications_def Let_def map_snd_zip split_def comp_def)

lemma producer_total:
  "m \<in> set (producerSendBulkNotifications now items) \<Longrightarrow> b_totalNotifications m = length items"
  by (auto simp: producerSendBulkNotifications_def Let_def)

lemma dtosOf_valid:
  "\<forall>item \<in> set items. validItem isISO8601 item \<Longrightarrow>
     map Object (dtosOf items) = items \<and> length (dtosOf items) = length items"
proof (induction items)
  case Nil
  then show ?case by (simp add: dtosOf_def)
next
  case (Cons item rest)
  then obtain d where "item = Object d"
    by (cases item) (auto simp: validItem_def)
  with Cons show ?case by (simp add: dtosOf_def)
qed

lemma body_accepts:
  assumes "1 \<le> length ns" and "length ns \<le> 10000"
  shows "\<exists>response messages.
           sendBulkNotificationsBody now (Some ns) = Inr (response, messages) \<and>
           r_success response \<and>
           concat (map b_bulkNotifications messages) = ns \<and>
           (\<forall>m \<in> set messages.
              b_totalNotifications m = length ns \<and>
              b_bulkNotifications m \<noteq> [] \<and> length (b_bulkNotifications m) \<le> 1000)"
proof -
  have sizes: "b_bulkNotifications m \<noteq> [] \<and> length (b_bulkNotifications m) \<le> 1000"
    if "m \<in> set (producerSendBulkNotifications now ns)" for m
  proof -
    from that
    have "b_bulkNotifications m \<in> set (map b_bulkNotifications (producerSendBulkNotifications now ns))"
      by simp
    then have "b_bulkNotifications m \<in> set (chunkLoop 0 ns [])"
      by (simp only: producer_chunks)
    from chunkLoop_sizes [OF this] show ?thesis by simp
  qed
  have "concat (map b_bulkNotifications (producerSendBulkNotifications now ns)) = ns"
    by (simp add: producer_chunks concat_chunkLoop)
  with sizes producer_total [of _ now ns] assms show ?thesis
    by (auto simp: sendBulkNotificationsBody_def)
qed

lemma body_rejects:
  "length ns = 0 \<or> length ns > 10000 \<Longrightarrow>
     \<exists>msg. sendBulkNotificationsBody now (Some ns) = Inl (HttpException msg 400)"
  by (auto simp: sendBulkNotificationsBody_def)

text \<open>
  Claim C8, amended. The bulk endpoint answers with an \<open>HttpException\<close> of status 400
  (bad request) when \<open>notifications\<close> is no array, when it holds no item, when it
  holds more than 10,000, and when an item fails the validation of
  \<open>SendNotificationDto\<close>. A payload of 1 to 10,000 items that all pass the validation
  is accepted: the answer reports success and the items are forwarded, all of them and
  in order, in messages of at most 1000 each.
\<close>

theorem sendBulkNotifications_guard:
  "(\<exists>msg. sendBulkNotifications isISO8601 now (NotAnArray v) = Inl (HttpException msg 400)) \<and>
   (length items = 0 \<or> length items > 10000 \<longrightarrow>
      (\<exists>msg. sendBulkNotifications isISO8601 now (Array items) = Inl (HttpException msg 400))) \<and>
   ((\<exists>item \<in> set items. \<not> validItem isISO8601 item) \<longrightarrow>
      (\<exists>msg. sendBulkNotifications isISO8601 now (Array items) = Inl (HttpException msg 400))) \<and>
   (1 \<le> length items \<and> length items \<le> 10000 \<and> (\<forall>item \<in> set items. validItem isISO8601 item) \<longrightarrow>
      (\<exists>response messages.
         sendBulkNotifications isISO8601 now (Array items) = Inr (response, messages) \<and>
         r_success response \<and>
         map Object (concat (map b_bulkNotifications messages)) = items \<and>
         (\<forall>m \<in> set messages.
            b_totalNotifications m = length items \<and>
            b_bulkNotifications m \<noteq> [] \<and> length (b_bulkNotifications m) \<le> 1000)))"
proof (intro conjI impI)
  show "\<exists>msg. sendBulkNotifications isISO8601 now (NotAnArray v) = Inl (HttpException msg 400)"
    by (simp add: sendBulkNotifications_def validationPipe_def)
next
  assume len: "length items = 0 \<or> length items > 10000"
  show "\<exists>msg. sendBulkNotifications isISO8601 now (Array items) = Inl (HttpException msg 400)"
  proof (cases "\<forall>item \<in> set items. validItem isISO8601 item")
    case True
    with dtosOf_valid [OF True] len body_rejects [of "dtosOf items" now]
    show ?thesis by (simp add: sendBulkNotifications_def validationPipe_def)
  next
    case False
    then have "validationPipe isISO8601 (Array items) =
                 Inl (HttpException ''Bad Request Exception'' 400)"
      by (simp add: validationPipe_def)
    then show ?thesis by (simp add: sendBulkNotifications_def)
  qed
next
  assume "\<exists>item \<in> set items. \<not> validItem isISO8601 item"
  then have "validationPipe isISO8601 (Array items) =
               Inl (HttpException ''Bad Request Exception'' 400)"
    by (auto simp: validationPipe_def)
  then show "\<exists>msg. sendBulkNotifications isISO8601 now (Array items) = Inl (HttpException msg 400)"
    by (simp add: sendBulkNotifications_def)
next
  assume a: "1 \<le> length items \<and> length items \<le> 10000 \<and> (\<forall>item \<in> set items. validItem isISO8601 item)"
  then have valid: "\<forall>item \<in> set items. validItem isISO8601 item" by simp
  from dtosOf_valid [OF valid] have d: "map Object (dtosOf items) = items"
    "length (dtosOf items) = length items" by simp_all
  from a d have "1 \<le> length (dtosOf items)" "length (dtosOf items) \<le> 10000" by simp_all
  from body_accepts [OF this, of now] obtain response messages where
    "sendBulkNotificationsBody now (Some (dtosOf items)) = Inr (response, messages)"
    "r_success response" "concat (map b_bulkNotifications messages) = dtosOf items"
    "\<forall>m \<in> set messages.
        b_totalNotifications m = length (dtosOf items) \<and>
        b_bulkNotifications m \<noteq> [] \<and> length (b_bulkNotifications m) \<le> 1000"
    by blast
  with valid d show "\<exists>response messages.
         sendBulkNotifications isISO8601 now (Array items) = Inr (response, messages) \<and>
         r_success response \<and>
         map Object (concat (map b_bulkNotifications messages)) = items \<and>
         (\<forall>m \<in> set messages.
            b_totalNotifications m = length items \<and>
            b_bulkNotifications m \<noteq> [] \<and> length (b_bulkNotifications m) \<le> 1000)"
    by (simp add: sendBulkNotifications_def validationPipe_def)
qed

text \<open>
  Claim C8 as stated fails: a payload of one item is rejected with status 400 when the
  item does not pass the validation pipe of the endpoint, here for its type TEST, which
  is no value of \<open>NotificationType\<close>.
\<close>

theorem sendBulkNotifications_guard_counterexample:
  "length [Object testDto] = 1 \<and>
   sendBulkNotifications lenientDates 5 (Array [Object testDto]) =
     Inl (HttpException ''Bad Request Exception'' 400)"
  by (simp add: sendBulkNotifications_def validationPipe_def validItem_def validDto_def
      testDto_def welcomeDto_def isEnum_def notificationTypes_def)

lemma welcomeDto_valid: "validItem lenientDates (Object welcomeDto)"
  by (simp add: validItem_def validDto_def welcomeDto_def isString_def isNotEmpty_def
      isEnum_def maxLength_def isOptional_def notificationTypes_def notificationPriorities_def)

theorem sendBulkNotifications_guard_witness:
  "(\<exists>msg. sendBulkNotifications lenientDates 5 (Array []) = Inl (HttpException msg 400)) \<and>
   length (replicate 10001 (Object welcomeDto)) > 10000 \<and>
   (\<exists>msg. sendBulkNotifications lenientDates 5 (Array (replicate 10001 (Object welcomeDto))) =
            Inl (HttpException msg 400)) \<and>
   \<not> validItem lenientDates (Object testDto) \<and>
   (\<exists>msg. sendBulkNotifications lenientDates 5 (Array [Object welcomeDto, Object testDto]) =
            Inl (HttpException msg 400)) \<and>
   validItem lenientDates (Object welcomeDto) \<and>
   (\<exists>response messages.
      sendBulkNotifications lenientDates 5 (Array [Object welcomeDto, Object welcomeDto]) =
        Inr (response, messages) \<and>
      r_success response \<and>
      concat (map b_bulkNotifications messages) = [welcomeDto, welcomeDto])"
proof -
  note g = sendBulkNotifications_guard [of lenientDates 5]
  have bad: "\<not> validItem lenientDates (Object testDto)"
    by (simp add: validItem_def validDto_def testDto_def welcomeDto_def isEnum_def
        notificationTypes_def)
  have "\<exists>msg. sendBulkNotifications lenientDates 5 (Array []) = Inl (HttpException msg 400)"
    using g [of JUndefined "[]"] by simp
  moreover have
    "\<exists>msg. sendBulkNotifications lenientDates 5 (Array (replicate 10001 (Object welcomeDto))) =
            Inl (HttpException msg 400)"
    using g [of JUndefined "replicate 10001 (Object welcomeDto)"] by simp
  moreover have
    "\<exists>msg. sendBulkNotifications lenientDates 5 (Array [Object welcomeDto, Object testDto]) =
            Inl (HttpException msg 400)"
    using g [of JUndefined "[Object welcomeDto, Object testDto]"] bad by simp
  moreover have "\<exists>response messages.
      sendBulkNotifications lenientDates 5 (Array [Object welcomeDto, Object welcomeDto]) =
        Inr (response, messages) \<and>
      r_success response \<and>
      concat (map b_bulkNotifications messages) = [welcomeDto, welcomeDto]"
  proof -
    from g [of JUndefined "[Object welcomeDto, Object welcomeDto]"] welcomeDto_valid
    obtain response messages where
      "sendBulkNotifications lenientDates 5 (Array [Object welcomeDto, Object welcomeDto]) =
        Inr (response, messages)" "r_success response"
      "map Object (concat (map b_bulkNotifications messages)) = [Object welcomeDto, Object welcomeDto]"
      by auto
    moreover from this(3) have "concat (map b_bulkNotifications messages) = [welcomeDto, welcomeDto]"
      by (auto simp: map_eq_Cons_conv)
    ultimately show ?thesis by blast
  qed
  ultimately show ?thesis using bad welcomeDto_valid by simp
qed


section \<open>Templates in the workers\<close>

text \<open>
  Claim C2, at two jobs: one for a notification of type ORDER_CONFIRMATION on channel
  EMAIL, one for a notification of type ORDER_SHIPPED on channel PUSH, with an active
  template stored for each pair. The claim has these templates consulted and rendered
  (the subject of the mail would be "Order 42 confirmed"). The email worker asks for the
  template of type EMAIL and channel EMAIL, the push worker for type PUSH and channel
  PUSH; neither finds one, and both send the raw title and message of the job.
\<close>

theorem worker_template_lookup:
  "n_type orderRow = ''ORDER_CONFIRMATION'' \<and> n_channel orderRow = ''EMAIL'' \<and>
   fst (getNotificationTemplate ''ORDER_CONFIRMATION'' ''EMAIL'' 1000 workerWorld) =
     Some orderTemplate \<and>
   c_title (renderTemplate engine orderTemplate (variablesOf orderJob)) =
     ''Order 42 confirmed'' \<and>
   (case sendEmail engine 1000 None orderJob workerWorld of
      Inr w' \<Rightarrow>
        mailsSent w' = [\<lparr>m_to = ''ada@example.com'', m_subject = ''t'', m_html = ''m''\<rparr>]
    | Inl e \<Rightarrow> False) \<and>
   n_type shippedRow = ''ORDER_SHIPPED'' \<and> n_channel shippedRow = ''PUSH'' \<and>
   fst (getNotificationTemplate ''ORDER_SHIPPED'' ''PUSH'' 1000 workerWorld) =
     Some shippedTemplate \<and>
   (case sendPush engine 1000 None shippedJob workerWorld of
      Inr w' \<Rightarrow> map p_title (pushesSent w') = [''t''] \<and> map p_body (pushesSent w') = [''m'']
    | Inl e \<Rightarrow> False)"
  by code_simp

section \<open>Rendering\<close>

text \<open>
  Claim C5, at the template with title {{title}} and a title variable "Save $$$ today":
  the claim has the token replaced by the string form of the value. \<open>replace\<close> reads the
  value as a replacement pattern, in which \<open>$$\<close> stands for one dollar sign and \<open>$&\<close>
  for the matched text: the rendered title is "Save $$ today", and a variable with the
  value \<open>$&\<close> leaves its token where it was.
\<close>

theorem render_dollar_pattern:
  "render engine saleTemplate saleVariables =
     \<lparr>c_title = ''Save $$ today'', c_message = ''m'', c_htmlContent = None\<rparr> \<and>
   render engine greeting [(''name'', JStr ''$&'')] = greeting"
  by code_simp

lemma replaceAll_no_match:
  "\<not> sublist pat s \<Longrightarrow> replaceAll pat rep preceding s = s"
proof (induction s arbitrary: preceding)
  case Nil
  then show ?case by simp
next
  case (Cons c cs)
  from Cons.prems have "\<not> prefix pat (c # cs)" and "\<not> sublist pat cs"
    by (auto simp: sublist_Cons_right)
  with Cons.IH show ?case by simp
qed

lemma newRegExp_plain:
  "plainName key \<Longrightarrow> newRegExp engine key = Literal (''{{'' @ key @ ''}}'')"
  by (simp add: newRegExp_def)

text \<open>With plain names only, the engine is not asked: the rendering is the same for every engine.\<close>

lemma renderLoop_plain_engine:
  "\<forall>key \<in> set (map fst variables). plainName key \<Longrightarrow>
     renderLoop engine c variables = renderLoop engine' c variables"
proof (induction variables arbitrary: c)
  case Nil
  then show ?case by simp
next
  case (Cons kv rest)
  obtain key v where kv: "kv = (key, v)" by (cases kv)
  with Cons.prems have "plainName key" by simp
  with Cons kv show ?case by (simp add: newRegExp_plain)
qed

lemma render_plain_engine:
  "\<forall>key \<in> set (map fst variables). plainName key \<Longrightarrow>
     render engine template variables = render engine' template variables"
  by (simp add: render_def renderLoop_plain_engine [of variables engine template engine'])

lemma renderLoop_tokenFree:
  assumes "\<forall>key \<in> set (map fst variables). plainName key \<and> tokenFree key c"
  shows "renderLoop engine c variables = Inr c"
  using assms
proof (induction variables)
  case Nil
  then show ?case by simp
next
  case (Cons kv rest)
  obtain key v where kv: "kv = (key, v)" by (cases kv)
  define p where "p = ''{{'' @ key @ ''}}''"
  from Cons.prems kv have p: "newRegExp engine key = Literal p"
    and free: "tokenFree key c"
    by (simp_all add: newRegExp_plain p_def)
  from free have "replace (c_title c) p (jsString v) = c_title c"
    "replace (c_message c) p (jsString v) = c_message c"
    "(case c_htmlContent c of
        Some h \<Rightarrow> if h \<noteq> [] then Some (replace h p (jsString v)) else Some h
      | None \<Rightarrow> None) = c_htmlContent c"
    unfolding replace_def tokenFree_def p_def [symmetric]
    by (auto simp: replaceAll_no_match split: option.splits)
  then have "renderLoop engine c (kv # rest) = renderLoop engine c rest"
    using p kv by (cases c) simp
  with Cons show ?case by simp
qed

text \<open>
  Claim C6 as stated fails: a value may hold a token of the mapping. With the variables
  title = Sale and note = {{title}}!, in this order, the title {{note}} renders to
  {{title}}!, and rendering that again gives Sale!. Both names are plain, so the engine
  plays no part.
\<close>

theorem render_idempotent_counterexample:
  "plainName ''title'' \<and> plainName ''note'' \<and>
   render noEngine noteTemplate noteVariables = noteTemplate\<lparr>c_title := ''{{title}}!''\<rparr> \<and>
   render noEngine (noteTemplate\<lparr>c_title := ''{{title}}!''\<rparr>) noteVariables =
     noteTemplate\<lparr>c_title := ''Sale!''\<rparr>"
  by code_simp

text \<open>
  Claim C6, amended. For every template and every variable mapping whose names are plain
  (no character with a meaning in a regular expression, and not digits and commas only):
  rendering the result of a rendering again, with the same variables, returns it
  unchanged whenever that result holds no token \<open>{{name}}\<close> for a name of the mapping
  in any of its three fields (all known tokens already substituted).
\<close>

theorem render_idempotent:
  assumes "\<forall>key \<in> set (map fst variables). plainName key"
    and "\<forall>key \<in> set (map fst variables).
           tokenFree key (render engine template variables)"
  shows "render engine (render engine template variables) variables =
           render engine template variables"
proof -
  from assms
  have "\<forall>key \<in> set (map fst variables).
          plainName key \<and> tokenFree key (render engine template variables)"
    by blast
  then have "renderLoop engine (render engine template variables) variables =
               Inr (render engine template variables)"
    by (rule renderLoop_tokenFree)
  then show ?thesis
    by (simp add: render_def)
qed

theorem render_idempotent_witness:
  "plainName ''name'' \<and> plainName ''orderId'' \<and>
   render noEngine greeting greetingVariables = greetingRendered \<and>
   tokenFree ''name'' greetingRendered \<and> tokenFree ''orderId'' greetingRendered \<and>
   render noEngine greetingRendered greetingVariables = greetingRendered"
proof -
  have a: "render noEngine greeting greetingVariables = greetingRendered"
    by code_simp
  have b: "tokenFree ''name'' greetingRendered" "tokenFree ''orderId'' greetingRendered"
    by code_simp+
  have c: "plainName ''name''" "plainName ''orderId''"
    by code_simp+
  from c have p: "\<forall>key \<in> set (map fst greetingVariables). plainName key"
    by (simp add: greetingVariables_def)
  from b a have "\<forall>key \<in> set (map fst greetingVariables).
                   tokenFree key (render noEngine greeting greetingVariables)"
    by (simp add: greetingVariables_def)
  from render_idempotent [OF p this] a b c show ?thesis by simp
qed

section \<open>Further properties\<close>

lemma determineChannels_pinned:
  "given (d_channel nd) = Some c \<Longrightarrow> determineChannels nd prefs = Inr [c]"
  by (simp add: determineChannels_def)

text \<open>
  A request that pins no channel and whose type is none of the eight and no member that
  objects inherit gets the default channel EMAIL: at most one channel, EMAIL, is
  targeted, and exactly EMAIL when no preference row has a truthy \<open>enabled\<close>.
\<close>

theorem determineChannels_default_email:
  assumes "given (d_channel nd) = None"
    and "d_type nd \<notin> set (map fst defaultChannels)"
    and "d_type nd \<notin> set objectPrototypeKeys"
  shows "\<exists>cs. determineChannels nd prefs = Inr cs \<and> set cs \<subseteq> {''EMAIL''} \<and> length cs \<le> 1 \<and>
           ((\<forall>p \<in> set prefs. \<not> truthy (getProp p ''enabled'')) \<longrightarrow> cs = [''EMAIL''])"
proof -
  from assms(2) have "map_of defaultChannels (d_type nd) = None"
    by (simp add: map_of_eq_None_iff)
  with assms(3) have "lookupRecord defaultChannels (d_type nd) = Missing"
    by (simp add: lookupRecord_def)
  with assms(1) show ?thesis
    by (auto simp: determineChannels_def Let_def filter_empty_conv)
qed

theorem determineChannels_default_email_witness:
  "given (d_channel promoRequest) = None \<and>
   determineChannels promoRequest u2Preferences = Inr [''EMAIL''] \<and>
   map q_name (dispatchedJobs 1000 promoRequest u2World) = [''send-email'']"
proof -
  have a: "given (d_channel promoRequest) = None"
    by (simp add: promoRequest_def orderRequest_def given_def)
  have b: "d_type promoRequest \<notin> set (map fst defaultChannels)"
    by (simp add: promoRequest_def orderRequest_def defaultChannels_def)
  have c: "d_type promoRequest \<notin> set objectPrototypeKeys"
    by (simp add: promoRequest_def orderRequest_def objectPrototypeKeys_def)
  have d: "\<forall>p \<in> set u2Preferences. \<not> truthy (getProp p ''enabled'')"
    by (simp add: u2Preferences_def getProp_def)
  from determineChannels_default_email [OF a b c, of u2Preferences] d
  have e: "determineChannels promoRequest u2Preferences = Inr [''EMAIL'']"
    by auto
  have "getUserPreferences (u2World\<lparr>notifications := ns, nextId := i\<rparr>) ''u2'' = u2Preferences"
    for ns i
    by (simp add: getUserPreferences_def u2World_def u2Preferences_def getProp_def)
  moreover have "d_userId promoRequest = ''u2''"
    by (simp add: promoRequest_def orderRequest_def)
  ultimately have "map q_name (dispatchedJobs 1000 promoRequest u2World) = [''send-email'']"
    using e
    by (simp add: dispatchedJobs_def sendNotification_def Let_def enqueue_def jobsAdded_def
        mkJob_def u2World_def emptyWorld_def)
  with a e show ?thesis by simp
qed

text \<open>Rendering with an empty variable mapping returns the template fields unchanged.\<close>

theorem render_empty_variables: "render engine template [] = template"
  by (simp add: render_def)

lemma renderLoop_throws:
  "\<exists>key \<in> set (map fst variables). newRegExp engine key = Invalid \<Longrightarrow>
   \<exists>e. renderLoop engine c variables = Inl e"
proof (induction variables arbitrary: c)
  case Nil
  then show ?case by simp
next
  case (Cons kv rest)
  obtain key v where kv: "kv = (key, v)" by (cases kv)
  show ?case
  proof (cases "newRegExp engine key")
    case Invalid
    with kv show ?thesis by simp
  next
    case (Literal p)
    with Cons.prems kv have "\<exists>key \<in> set (map fst rest). newRegExp engine key = Invalid"
      by auto
    from Cons.IH [OF this] Literal kv show ?thesis by simp
  next
    case (Compiled re)
    with Cons.prems kv have "\<exists>key \<in> set (map fst rest). newRegExp engine key = Invalid"
      by auto
    from Cons.IH [OF this] Compiled kv show ?thesis by simp
  qed
qed

text \<open>
  When building the pattern of some key throws, \<open>render\<close> does not fail: it returns the
  fields of the template as they were, whatever the keys before it replaced.
\<close>

theorem render_catch:
  assumes "\<exists>key \<in> set (map fst variables). newRegExp engine key = Invalid"
  shows "render engine template variables = template"
proof -
  from renderLoop_throws [OF assms] obtain e where
    "renderLoop engine template variables = Inl e"
    by blast
  then show ?thesis by (simp add: render_def)
qed

theorem render_catch_witness:
  "newRegExp noEngine ''(x'' = Invalid \<and>
   render noEngine greeting [(''name'', JStr ''Ada''), (''(x'', JStr ''y'')] = greeting"
proof -
  have a: "newRegExp noEngine ''(x'' = Invalid"
    by (simp add: newRegExp_def plainName_def syntaxCharacters_def)
  then have "\<exists>key \<in> set (map fst [(''name'', JStr ''Ada''), (''(x'', JStr ''y'')]).
               newRegExp noEngine key = Invalid"
    by simp
  from render_catch [OF this] a show ?thesis by simp
qed

lemma getSubstitution_plain:
  "CHR ''$'' \<notin> set rep \<Longrightarrow> getSubstitution matched preceding following rep = rep"
  by (induction matched preceding following rep rule: getSubstitution.induct) auto

lemma replaceAll_leftmost:
  assumes "pat \<noteq> []" and "\<not> sublist pat (a @ butlast pat)"
  shows "replaceAll pat rep preceding (a @ pat @ b) =
           a @ getSubstitution pat (preceding @ a) b rep
             @ replaceAll pat rep (preceding @ a @ pat) b"
  using assms(2)
proof (induction a arbitrary: preceding)
  case Nil
  from assms(1) obtain c cs where pat: "pat = c # cs" by (cases pat) auto
  then have "replaceAll pat rep preceding (pat @ b) =
      getSubstitution pat preceding (drop (length pat) (pat @ b)) rep
        @ replaceAll pat rep (preceding @ pat) (drop (length pat) (pat @ b))"
    by simp
  then show ?case by simp
next
  case (Cons x a)
  have "\<not> prefix pat (x # a @ pat @ b)"
  proof
    assume "prefix pat (x # a @ pat @ b)"
    then obtain r where r: "x # a @ pat @ b = pat @ r" by (auto simp: prefix_def)
    from assms(1) have len: "length (butlast pat) < length pat" by simp
    have "length pat \<le> length (x # a @ butlast pat)" using assms(1) by simp
    moreover have "x # a @ pat @ b = (x # a @ butlast pat) @ (last pat # b)"
      using assms(1) by simp
    ultimately have "prefix pat (x # a @ butlast pat)"
      using r by (metis append_eq_append_conv_if prefixI prefix_def take_is_prefix prefix_order.order_trans)
    then have "sublist pat ((x # a) @ butlast pat)" by (auto dest: prefix_imp_sublist)
    with Cons.prems show False by simp
  qed
  moreover from Cons.prems have "\<not> sublist pat (a @ butlast pat)"
    by (auto simp: sublist_Cons_right)
  ultimately show ?case
    using Cons.IH [of "preceding @ [x]"] by simp
qed

text \<open>
  One pass of \<open>replace\<close>: a text in which the pattern does not occur is unchanged; and
  the leftmost occurrence of the pattern is replaced by the replacement text itself when
  that holds no dollar sign, the pass going on behind it.
\<close>

theorem replace_occurrences:
  "(\<not> sublist pat s \<longrightarrow> replace s pat rep = s) \<and>
   (pat \<noteq> [] \<and> CHR ''$'' \<notin> set rep \<and> \<not> sublist pat (a @ butlast pat) \<longrightarrow>
      replace (a @ pat @ b) pat rep = a @ rep @ replaceAll pat rep (a @ pat) b)"
  by (simp add: replace_def replaceAll_no_match replaceAll_leftmost getSubstitution_plain)

theorem replace_occurrences_witness:
  "\<not> sublist ''{{who}}'' ''Hi {{name}}'' \<and> replace ''Hi {{name}}'' ''{{who}}'' ''Ada'' = ''Hi {{name}}'' \<and>
   \<not> sublist ''{{name}}'' (''Hi '' @ butlast ''{{name}}'') \<and>
   replace (''Hi '' @ ''{{name}}'' @ '', bye {{name}}'') ''{{name}}'' ''Ada'' = ''Hi Ada, bye Ada''"
proof -
  have a: "\<not> sublist ''{{who}}'' ''Hi {{name}}''" by code_simp
  have b: "''{{name}}'' \<noteq> [] \<and> CHR ''$'' \<notin> set ''Ada'' \<and>
           \<not> sublist ''{{name}}'' (''Hi '' @ butlast ''{{name}}'')" by code_simp
  from replace_occurrences [of "''{{who}}''" "''Hi {{name}}''" "''Ada''"] a
  have c: "replace ''Hi {{name}}'' ''{{who}}'' ''Ada'' = ''Hi {{name}}''" by blast
  from replace_occurrences [of "''{{name}}''" _ "''Ada''" "''Hi ''" "'', bye {{name}}''"] b
  have "replace (''Hi '' @ ''{{name}}'' @ '', bye {{name}}'') ''{{name}}'' ''Ada'' =
          ''Hi '' @ ''Ada'' @ replaceAll ''{{name}}'' ''Ada'' (''Hi '' @ ''{{name}}'') '', bye {{name}}''"
    by blast
  moreover have "replaceAll ''{{name}}'' ''Ada'' (''Hi '' @ ''{{name}}'') '', bye {{name}}'' = '', bye Ada''"
    by code_simp
  ultimately have "replace (''Hi '' @ ''{{name}}'' @ '', bye {{name}}'') ''{{name}}'' ''Ada'' = ''Hi Ada, bye Ada''"
    by simp
  with a b c show ?thesis by simp
qed

lemma length_cacheDelete: "length (cacheDelete key c) \<le> length c"
  by (simp add: cacheDelete_def)

lemma length_cacheSet: "length (cacheSet key entry c) \<le> Suc (length c)"
  by (simp add: cacheSet_def)

text \<open>The template cache never grows beyond its capacity of 500 entries.\<close>

theorem setCached_bounded:
  assumes "length c \<le> maxSize"
  shows "length (setCached key v now c) \<le> maxSize"
proof (cases "length c \<ge> maxSize")
  case True
  with assms have "c \<noteq> []" by (auto simp: maxSize_def)
  then obtain oldest rest where c: "c = oldest # rest" by (cases c) auto
  then have "length (cacheDelete (fst oldest) c) < length c"
    by (simp add: cacheDelete_def le_imp_less_Suc)
  with assms have "length (cacheDelete (fst oldest) c) < maxSize" by simp
  with length_cacheSet [of key "(v, now)" "cacheDelete (fst oldest) c"] True c
  show ?thesis by (simp add: setCached_def)
next
  case False
  with length_cacheSet [of key "(v, now)" c] show ?thesis
    by (simp add: setCached_def)
qed

theorem setCached_bounded_witness:
  "length ([] :: templateCache) \<le> maxSize \<and>
   length (setCached ''EMAIL:EMAIL'' orderTemplate 1000 []) \<le> maxSize \<and>
   setCached ''EMAIL:EMAIL'' orderTemplate 1000 [] = [(''EMAIL:EMAIL'', orderTemplate, 1000)]"
proof -
  have a: "length ([] :: templateCache) \<le> maxSize" by simp
  from setCached_bounded [OF a, of "''EMAIL:EMAIL''" orderTemplate 1000] a show ?thesis
    by (simp add: setCached_def cacheSet_def maxSize_def)
qed



end
